theory Spec2Isabelle
  imports Complex_Main "HOL-Library.Word" "HOL-Library.Sublist"
begin

section \<open>The Pokedex page: data model\<close>

text \<open>
  The development embeds \<^verbatim>\<open>app/page.tsx\<close>: the component \<^verbatim>\<open>Home\<close> with its four state
  cells, the effect \<^verbatim>\<open>fetchPokemon\<close>, the memoised \<^verbatim>\<open>filteredPokemon\<close> and the conditions
  under which the JSX shows each part of the page.

  A JavaScript string is a sequence of 16-bit code units.
\<close>

type_synonym code_unit = "16 word"
type_synonym jsstring = "code_unit list"

definition js :: "string \<Rightarrow> jsstring" where
  \<comment> \<open>An ASCII literal of the source as a JavaScript string.\<close>
  "js s = map of_char s"

text \<open>
  \<^verbatim>\<open>interface Pokemon { id; name; types; sprite; height; weight }\<close>.
  The numeric fields carry the integers of the remote schema (\<^verbatim>\<open>id: int\<close>,
  \<^verbatim>\<open>height: int\<close>, \<^verbatim>\<open>weight: int\<close>). The interface says \<^verbatim>\<open>sprite: string\<close>, but the value
  stored is whatever \<^verbatim>\<open>a || b\<close> yields at run time, which is \<^verbatim>\<open>null\<close> when both image
  references are \<^verbatim>\<open>null\<close>; hence the option.
\<close>

record Pokemon =
  id' :: int
  name :: jsstring
  types :: "jsstring list"
  sprite :: "jsstring option"
  height :: int
  weight :: int

text \<open>
  The JSON document of the detail endpoint, as far as the program reads it:
  \<^verbatim>\<open>detail.id\<close>, \<^verbatim>\<open>detail.name\<close>, \<^verbatim>\<open>detail.types[k].type.name\<close>,
  \<^verbatim>\<open>detail.sprites.other['official-artwork'].front_default\<close>,
  \<^verbatim>\<open>detail.sprites.front_default\<close>, \<^verbatim>\<open>detail.height\<close>, \<^verbatim>\<open>detail.weight\<close>.
\<close>

record named_resource =
  resource_name :: jsstring

record type_slot =
  slot_type :: named_resource

record sprites =
  front_default :: "jsstring option"
  other_official_artwork_front_default :: "jsstring option"

record detail =
  detail_id :: int
  detail_name :: jsstring
  detail_types :: "type_slot list"
  detail_sprites :: sprites
  detail_height :: int
  detail_weight :: int

text \<open>
  Whatever makes an awaited promise reject inside the \<^verbatim>\<open>try\<close> block: a failed
  \<^verbatim>\<open>fetch\<close>, a body that \<^verbatim>\<open>json()\<close> cannot parse, or a document without the fields
  the program dereferences.
\<close>

datatype error = NetworkError jsstring | SyntaxError jsstring | TypeError jsstring

text \<open>
  The four \<^verbatim>\<open>useState\<close> cells of \<^verbatim>\<open>Home\<close>, and the lines written by
  \<^verbatim>\<open>console.error\<close> (each with its two arguments).
\<close>

record state =
  pokemon :: "Pokemon list"
  search :: jsstring
  loading :: bool
  selectedPokemon :: "Pokemon option"
  console :: "(jsstring \<times> error) list"

definition initial_state :: state where
  \<comment> \<open>\<^verbatim>\<open>useState([])\<close>, \<^verbatim>\<open>useState('')\<close>, \<^verbatim>\<open>useState(true)\<close>, \<^verbatim>\<open>useState(null)\<close>\<close>
  "initial_state = \<lparr>pokemon = [], search = [], loading = True, selectedPokemon = None, console = []\<rparr>"

section \<open>Strings and numbers of the language\<close>

text \<open>
  \<^verbatim>\<open>String.prototype.toLowerCase\<close> follows the Unicode case tables. The embedding writes
  out the rows of the Basic Latin block (\<open>A\<close> .. \<open>Z\<close> to \<open>a\<close> .. \<open>z\<close>) and leaves every
  other code unit as it is. That is what the tables say for the rest of Basic Latin
  (digits, punctuation, white space, the small letters) and for U+00DF; further
  letters with a lower case of their own are not written out, so that the definition
  follows the language on Basic Latin strings (\<open>basic_latin\<close> below) and on U+00DF.
  A statement below that depends on what lower-casing yields assumes its strings to
  be Basic Latin. The two facts used apart from that are true of the full tables as
  well: no code unit other than a digit or the minus sign lower-cases to one of
  these, and on Basic Latin lower-casing undoes upper-casing.
\<close>

definition toLowerCase_unit :: "code_unit \<Rightarrow> code_unit" where
  "toLowerCase_unit c = (if 0x41 \<le> c \<and> c \<le> 0x5A then c + 0x20 else c)"

definition toLowerCase :: "jsstring \<Rightarrow> jsstring" where
  "toLowerCase s = map toLowerCase_unit s"

text \<open>
  \<^verbatim>\<open>String.prototype.toUpperCase\<close> is not called by the program; it is the operation the
  specification states case-insensitivity with. Again the Basic Latin rows are written
  out (\<open>a\<close> .. \<open>z\<close> to \<open>A\<close> .. \<open>Z\<close>), together with the row of the special casing table for
  U+00DF (LATIN SMALL LETTER SHARP S), whose upper case is the two code units \<open>SS\<close>.
\<close>

definition toUpperCase_unit :: "code_unit \<Rightarrow> jsstring" where
  "toUpperCase_unit c =
     (if 0x61 \<le> c \<and> c \<le> 0x7A then [c - 0x20]
      else if c = 0xDF then [0x53, 0x53]
      else [c])"

definition toUpperCase :: "jsstring \<Rightarrow> jsstring" where
  "toUpperCase s = concat (map toUpperCase_unit s)"

text \<open>
  \<^verbatim>\<open>String.prototype.includes\<close>: does the argument occur at some position of the
  receiver? The empty string occurs in every string.
\<close>

fun startsWith :: "jsstring \<Rightarrow> jsstring \<Rightarrow> bool" where
  "startsWith s [] = True"
| "startsWith [] (q # qs) = False"
| "startsWith (c # cs) (q # qs) = (c = q \<and> startsWith cs qs)"

fun includes' :: "jsstring \<Rightarrow> jsstring \<Rightarrow> bool" where
  "includes' [] q = (q = [])"
| "includes' (c # cs) q = (startsWith (c # cs) q \<or> includes' cs q)"

text \<open>
  Decimal digits of a non-negative integer, most significant first, with no leading
  zero and no padding.
\<close>

definition digit_unit :: "int \<Rightarrow> code_unit" where
  "digit_unit d = 0x30 + of_int d"

function decimal_digits :: "int \<Rightarrow> jsstring" where
  "decimal_digits n =
     (if n < 10 then [digit_unit n] else decimal_digits (n div 10) @ [digit_unit (n mod 10)])"
  by pat_completeness auto
termination
  by (relation "measure nat") auto

declare decimal_digits.simps [simp del]


text \<open>
  \<^verbatim>\<open>Number.prototype.toString\<close> on a number with an integer value. Such a number is a
  double: an integer of at most 53 significant bits times a power of two.
\<close>

function bit_length :: "int \<Rightarrow> nat" where
  "bit_length n = (if n \<le> 0 then 0 else Suc (bit_length (n div 2)))"
  by pat_completeness auto
termination
  by (relation "measure nat") auto

declare bit_length.simps [simp del]



text \<open>
  The language prints the shortest decimal that reads back as the same double. The
  integer \<open>c\<close> reads back as the double \<open>x > 0\<close> when it lies between the midpoints
  to the two neighbouring doubles (the lower neighbour is half as far when \<open>x\<close> is a
  power of two); a midpoint itself reads back as \<open>x\<close> when the significand of \<open>x\<close> is
  even. All quantities are multiplied by four to stay integral.
\<close>

definition reads_back :: "int \<Rightarrow> int \<Rightarrow> bool" where
  "reads_back x c =
     (let ulp = 2 ^ (bit_length x - 53);
          m = x div ulp;
          low4 = 4 * x - (if m = 2 ^ 52 then ulp else 2 * ulp);
          high4 = 4 * x + 2 * ulp
      in if even m then low4 \<le> 4 * c \<and> 4 * c \<le> high4 else low4 < 4 * c \<and> 4 * c < high4)"

text \<open>
  The multiple of \<open>10\<^sup>j\<close> nearest to \<open>x\<close> that reads back as \<open>x\<close>, if there is one
  (of two equally near, the one with the even digit string).
\<close>

definition candidate :: "int \<Rightarrow> nat \<Rightarrow> int option" where
  "candidate x j =
     (let lo = (x div 10 ^ j) * 10 ^ j; hi = lo + 10 ^ j
      in if reads_back x lo \<and> reads_back x hi then
           Some (if x - lo < hi - x then lo
                 else if hi - x < x - lo then hi
                 else if even (lo div 10 ^ j) then lo else hi)
         else if reads_back x lo then Some lo
         else if reads_back x hi then Some hi
         else None)"

text \<open>
  Drop trailing digits as long as some multiple of the next power of ten still reads
  back as \<open>x\<close>; the result is the chosen integer and the number of zeros it ends in.
  No multiple of a power of ten beyond the length of \<open>x\<close> reads back as \<open>x\<close>, which
  bounds the search.
\<close>

fun shortest :: "int \<Rightarrow> int \<Rightarrow> nat \<Rightarrow> nat \<Rightarrow> int \<times> nat" where
  "shortest x c j 0 = (c, j)"
| "shortest x c j (Suc fuel) =
     (case candidate x (Suc j) of
        None \<Rightarrow> (c, j)
      | Some c' \<Rightarrow> shortest x c' (Suc j) fuel)"

text \<open>
  With \<open>n\<close> digits in all, of which \<open>k\<close> are significant: the digits and the zeros when
  \<open>n \<le> 21\<close>, and otherwise the exponent form, the first digit, a point and the other
  significant digits if there are any, then \<open>e+\<close> and \<open>n - 1\<close>.
\<close>

definition positive_toString :: "int \<Rightarrow> jsstring" where
  "positive_toString x =
     (let (c, j) = shortest x x 0 (Suc (length (decimal_digits x)));
          ds = decimal_digits c;
          n = length ds;
          k = n - j
      in if n \<le> 21 then ds
         else (case ds of
                 [] \<Rightarrow> []
               | d # rest \<Rightarrow>
                   d # (if 1 < k then 0x2E # take (k - 1) rest else []) @ [0x65, 0x2B] @
                     decimal_digits (int n - 1)))"

definition Number_toString :: "int \<Rightarrow> jsstring" where
  "Number_toString n = (if n < 0 then 0x2D # positive_toString (- n) else positive_toString n)"


text \<open>The white space a query is likely to consist of: space, tab, line feed, carriage return.\<close>

definition whitespace :: "code_unit \<Rightarrow> bool" where
  "whitespace c = (c = 0x20 \<or> c = 0x09 \<or> c = 0x0A \<or> c = 0x0D)"


text \<open>
  \<^verbatim>\<open>{selectedPokemon.height / 10}\<close>: the quotient of an integer by ten, rendered as text.
  The quotient is the double nearest to \<open>n / 10\<close>, and its text is the shortest decimal
  that reads back as that double. For \<open>\<bar>n\<bar> < 10\<^sup>1\<^sup>5\<close> the decimal \<open>n / 10\<close> has at
  most fifteen significant digits; decimals that short read back as different doubles,
  so none shorter reads back as the quotient and the text is the decimal expansion
  of \<open>n / 10\<close> itself: the integer part, and a point and one digit unless \<open>n\<close> is a
  multiple of ten. What is proved of this text is proved for \<open>\<bar>n\<bar> < 10\<^sup>1\<^sup>5\<close> only;
  beyond, the language rounds the quotient and the definition does not follow it.
\<close>

definition div10_toString :: "int \<Rightarrow> jsstring" where
  "div10_toString n =
     (let m = \<bar>n\<bar>;
          text = decimal_digits (m div 10) @ (if m mod 10 = 0 then [] else 0x2E # [digit_unit (m mod 10)])
      in if n < 0 then 0x2D # text else text)"





text \<open>
  \<^verbatim>\<open>a || b\<close> on two values of type \<^verbatim>\<open>string | null\<close>: the left operand if it is truthy,
  that is a string other than the empty one, and the right operand otherwise.
\<close>

definition or_else :: "jsstring option \<Rightarrow> jsstring option \<Rightarrow> jsstring option" where
  "or_else a b = (case a of None \<Rightarrow> b | Some s \<Rightarrow> (if s = [] then b else Some s))"

section \<open>The catalogue loader\<close>

text \<open>The object literal returned by the mapper inside \<^verbatim>\<open>Promise.all\<close>.\<close>

definition normalise :: "detail \<Rightarrow> Pokemon" where
  "normalise d =
     \<lparr>id' = detail_id d,
      name = detail_name d,
      types = map (\<lambda>t. resource_name (slot_type t)) (detail_types d),
      sprite = or_else (other_official_artwork_front_default (detail_sprites d))
                       (front_default (detail_sprites d)),
      height = detail_height d,
      weight = detail_weight d\<rparr>"

text \<open>
  \<^verbatim>\<open>Promise.all\<close> keeps one slot per input promise. A promise that fulfils writes its
  value into the slot of its own index; the first promise that rejects rejects the
  whole; when every slot is written the whole fulfils with the slots in index order.
  The promises settle in the order \<open>order\<close> (a list of indices). \<open>None\<close> is a result
  that stays pending: some promise never settles.
\<close>

fun Promise_all_settle :: "(error + 'a) list \<Rightarrow> 'a option list \<Rightarrow> nat list \<Rightarrow> (error + 'a list) option" where
  "Promise_all_settle ps slots [] = map_option Inr (those slots)"
| "Promise_all_settle ps slots (i # order) =
     (if i < length ps then
        (case ps ! i of
           Inl e \<Rightarrow> Some (Inl e)
         | Inr v \<Rightarrow> Promise_all_settle ps (slots[i := Some v]) order)
      else Promise_all_settle ps slots order)"

definition Promise_all :: "nat list \<Rightarrow> (error + 'a) list \<Rightarrow> (error + 'a list) option" where
  "Promise_all order ps = Promise_all_settle ps (replicate (length ps) None) order"

definition completion_order :: "nat \<Rightarrow> nat list \<Rightarrow> bool" where
  \<comment> \<open>each of the \<open>n\<close> promises settles exactly once\<close>
  "completion_order n order = (sort order = [0..<n])"

text \<open>
  The remote API as the loader sees it: the outcome of the list request (the
  \<^verbatim>\<open>url\<close> of each entry of \<^verbatim>\<open>data.results\<close>), the outcome of the detail request for a
  \<^verbatim>\<open>url\<close>, and the order in which the detail promises settle.
\<close>

record network =
  list_response :: "error + jsstring list"
  detail_response :: "jsstring \<Rightarrow> error + detail"
  settle_order :: "nat list"

definition catch :: "error \<Rightarrow> state \<Rightarrow> state" where
  \<comment> \<open>\<^verbatim>\<open>console.error('Error fetching Pokemon:', error); setLoading(false);\<close>\<close>
  "catch e s = s\<lparr>console := console s @ [(js ''Error fetching Pokemon:'', e)], loading := False\<rparr>"

definition fetchPokemon :: "network \<Rightarrow> state \<Rightarrow> state option" where
  "fetchPokemon net s =
     (case list_response net of
        Inl e \<Rightarrow> Some (catch e s)
      | Inr results \<Rightarrow>
          (case Promise_all (settle_order net)
                  (map (\<lambda>url. map_sum (\<lambda>e. e) normalise (detail_response net url)) results) of
             None \<Rightarrow> None
           | Some (Inl e) \<Rightarrow> Some (catch e s)
           | Some (Inr pokemonDetails) \<Rightarrow> Some (s\<lparr>pokemon := pokemonDetails, loading := False\<rparr>)))"

section \<open>The search filter\<close>

definition matches :: "jsstring \<Rightarrow> Pokemon \<Rightarrow> bool" where
  \<comment> \<open>the arrow function given to \<^verbatim>\<open>pokemon.filter\<close>\<close>
  "matches query p =
     (includes' (toLowerCase (name p)) query \<or>
      includes' (Number_toString (id' p)) query \<or>
      list_ex (\<lambda>type. includes' (toLowerCase type) query) (types p))"

definition filteredPokemon :: "Pokemon list \<Rightarrow> jsstring \<Rightarrow> Pokemon list" where
  "filteredPokemon pokemon_list search_text =
     (if search_text = [] then pokemon_list
      else let query = toLowerCase search_text in filter (matches query) pokemon_list)"

section \<open>Selection and presentation\<close>

datatype event = Select Pokemon | Dismiss

fun handle :: "state \<Rightarrow> event \<Rightarrow> state" where
  \<comment> \<open>\<^verbatim>\<open>onClick={() => setSelectedPokemon(p)}\<close> on a card\<close>
  "handle s (Select p) = s\<lparr>selectedPokemon := Some p\<rparr>"
  \<comment> \<open>\<^verbatim>\<open>onClick={() => setSelectedPokemon(null)}\<close> on the backdrop and on the close button\<close>
| "handle s Dismiss = s\<lparr>selectedPokemon := None\<rparr>"

definition run :: "state \<Rightarrow> event list \<Rightarrow> state" where
  "run s evs = foldl handle s evs"

text \<open>
  The selection machine in the words of the specification, and the reading of the
  nullable cell \<^verbatim>\<open>selectedPokemon\<close> as one of its states.
\<close>

datatype selection = Closed | Open Pokemon

fun spec_step :: "selection \<Rightarrow> event \<Rightarrow> selection" where
  "spec_step Closed (Select e) = Open e"
| "spec_step (Open e) (Select e') = Open e'"
| "spec_step (Open e) Dismiss = Closed"
| "spec_step Closed Dismiss = Closed"

definition selection_of :: "state \<Rightarrow> selection" where
  "selection_of s = (case selectedPokemon s of None \<Rightarrow> Closed | Some p \<Rightarrow> Open p)"

text \<open>
  What the JSX shows, part by part:
  \<^verbatim>\<open>{search && <p>Found {filteredPokemon.length} ...</p>}\<close>,
  \<^verbatim>\<open>{loading ? <spinner/> : <grid/>}\<close>,
  \<^verbatim>\<open>{!loading && filteredPokemon.length === 0 && <div>No ... matching "{search}"</div>}\<close>,
  \<^verbatim>\<open>{selectedPokemon && <overlay/>}\<close>.
\<close>

definition count_indicator :: "state \<Rightarrow> nat option" where
  "count_indicator s =
     (if search s \<noteq> [] then Some (length (filteredPokemon (pokemon s) (search s))) else None)"

definition spinner_shown :: "state \<Rightarrow> bool" where
  "spinner_shown s = loading s"

definition grid :: "state \<Rightarrow> Pokemon list option" where
  "grid s = (if loading s then None else Some (filteredPokemon (pokemon s) (search s)))"

definition empty_message_shown :: "state \<Rightarrow> bool" where
  "empty_message_shown s = (\<not> loading s \<and> length (filteredPokemon (pokemon s) (search s)) = 0)"

definition height_cell :: "Pokemon \<Rightarrow> jsstring" where
  \<comment> \<open>\<^verbatim>\<open>{selectedPokemon.height / 10}m\<close>\<close>
  "height_cell p = div10_toString (height p) @ js ''m''"

definition weight_cell :: "Pokemon \<Rightarrow> jsstring" where
  \<comment> \<open>\<^verbatim>\<open>{selectedPokemon.weight / 10}kg\<close>\<close>
  "weight_cell p = div10_toString (weight p) @ js ''kg''"

record overlay =
  overlay_entity :: Pokemon
  overlay_height :: jsstring
  overlay_weight :: jsstring

definition overlay_shown :: "state \<Rightarrow> overlay option" where
  "overlay_shown s =
     (case selectedPokemon s of
        None \<Rightarrow> None
      | Some p \<Rightarrow> Some \<lparr>overlay_entity = p, overlay_height = height_cell p, overlay_weight = weight_cell p\<rparr>)"

record view =
  view_count :: "nat option"
  view_spinner :: bool
  view_grid :: "Pokemon list option"
  view_empty_message :: "jsstring option"
  view_overlay :: "overlay option"

definition render :: "state \<Rightarrow> view" where
  "render s =
     \<lparr>view_count = count_indicator s,
      view_spinner = spinner_shown s,
      view_grid = grid s,
      view_empty_message = (if empty_message_shown s then Some (search s) else None),
      view_overlay = overlay_shown s\<rparr>"

section \<open>Sample data\<close>

text \<open>The three entities of the specification's scenario, and their detail documents.\<close>

definition bulbasaur :: Pokemon where
  "bulbasaur = \<lparr>id' = 1, name = js ''bulbasaur'', types = [js ''grass'', js ''poison''],
     sprite = Some (js ''artwork/1.png''), height = 7, weight = 69\<rparr>"

definition ivysaur :: Pokemon where
  "ivysaur = \<lparr>id' = 2, name = js ''ivysaur'', types = [js ''grass'', js ''poison''],
     sprite = Some (js ''artwork/2.png''), height = 10, weight = 130\<rparr>"

definition pikachu :: Pokemon where
  "pikachu = \<lparr>id' = 25, name = js ''pikachu'', types = [js ''electric''],
     sprite = Some (js ''sprites/25.png''), height = 4, weight = 60\<rparr>"

definition sample_catalogue :: "Pokemon list" where
  "sample_catalogue = [bulbasaur, ivysaur, pikachu]"

definition type_named :: "string \<Rightarrow> type_slot" where
  "type_named s = \<lparr>slot_type = \<lparr>resource_name = js s\<rparr>\<rparr>"

definition bulbasaur_detail :: detail where
  "bulbasaur_detail =
     \<lparr>detail_id = 1, detail_name = js ''bulbasaur'',
      detail_types = [type_named ''grass'', type_named ''poison''],
      detail_sprites = \<lparr>front_default = Some (js ''sprites/1.png''),
                        other_official_artwork_front_default = Some (js ''artwork/1.png'')\<rparr>,
      detail_height = 7, detail_weight = 69\<rparr>"

definition ivysaur_detail :: detail where
  "ivysaur_detail =
     \<lparr>detail_id = 2, detail_name = js ''ivysaur'',
      detail_types = [type_named ''grass'', type_named ''poison''],
      detail_sprites = \<lparr>front_default = None,
                        other_official_artwork_front_default = Some (js ''artwork/2.png'')\<rparr>,
      detail_height = 10, detail_weight = 130\<rparr>"

definition pikachu_detail :: detail where
  \<comment> \<open>no official artwork: the preferred reference is \<^verbatim>\<open>null\<close>\<close>
  "pikachu_detail =
     \<lparr>detail_id = 25, detail_name = js ''pikachu'',
      detail_types = [type_named ''electric''],
      detail_sprites = \<lparr>front_default = Some (js ''sprites/25.png''),
                        other_official_artwork_front_default = None\<rparr>,
      detail_height = 4, detail_weight = 60\<rparr>"

definition sample_references :: "jsstring list" where
  "sample_references = [js ''pokemon/1/'', js ''pokemon/2/'', js ''pokemon/25/'']"

definition sample_api :: "jsstring \<Rightarrow> error + detail" where
  "sample_api url =
     (if url = js ''pokemon/1/'' then Inr bulbasaur_detail
      else if url = js ''pokemon/2/'' then Inr ivysaur_detail
      else if url = js ''pokemon/25/'' then Inr pikachu_detail
      else Inl (NetworkError url))"

definition sample_network :: network where
  \<comment> \<open>the second detail request completes first\<close>
  "sample_network =
     \<lparr>list_response = Inr sample_references, detail_response = sample_api, settle_order = [1, 0, 2]\<rparr>"

definition failing_network :: network where
  \<comment> \<open>the second of the three detail requests fails, after the third has completed\<close>
  "failing_network =
     \<lparr>list_response = Inr sample_references,
      detail_response = (\<lambda>url. if url = js ''pokemon/2/'' then Inl (NetworkError url) else sample_api url),
      settle_order = [2, 1, 0]\<rparr>"

text \<open>The session after the load over \<open>failing_network\<close> has failed, nothing typed.\<close>

definition after_failed_load :: state where
  "after_failed_load =
     \<lparr>pokemon = [], search = [], loading = False, selectedPokemon = None,
      console = [(js ''Error fetching Pokemon:'', NetworkError (js ''pokemon/2/''))]\<rparr>"

text \<open>A detail document whose preferred image reference is present but empty.\<close>

definition blank_artwork_detail :: detail where
  "blank_artwork_detail =
     \<lparr>detail_id = 132, detail_name = js ''ditto'',
      detail_types = [type_named ''normal''],
      detail_sprites = \<lparr>front_default = Some (js ''sprites/132.png''),
                        other_official_artwork_front_default = Some []\<rparr>,
      detail_height = 3, detail_weight = 40\<rparr>"


section \<open>Substrings, digits and letter case\<close>








text \<open>A rendered number starts with the digit zero only if it is zero.\<close>

lemma decimal_digits_not_Nil: "decimal_digits n \<noteq> []"
  by (simp add: decimal_digits.simps [of n])

lemma digit_unit_zero: "0 \<le> d \<Longrightarrow> d < 10 \<Longrightarrow> digit_unit d = 0x30 \<Longrightarrow> d = 0"
proof -
  assume "0 \<le> d" "d < 10" and z: "digit_unit d = 0x30"
  then have "d \<in> {0, 1, 2, 3, 4, 5, 6, 7, 8, 9}" by simp presburger
  with z show ?thesis
    by (auto simp: digit_unit_def)
qed

lemma decimal_digits_no_leading_zero: "0 \<le> n \<Longrightarrow> hd (decimal_digits n) = 0x30 \<Longrightarrow> n = 0"
proof (induction n rule: decimal_digits.induct)
  case (1 n)
  show ?case
  proof (cases "n < 10")
    case True
    with "1.prems" show ?thesis
      by (simp add: decimal_digits.simps [of n] digit_unit_zero)
  next
    case False
    with "1.prems" have "hd (decimal_digits (n div 10)) = 0x30"
      by (simp add: decimal_digits.simps [of n] decimal_digits_not_Nil)
    with False "1.IH" "1.prems"(1) have "n div 10 = 0" by simp
    with False "1.prems"(1) show ?thesis by simp
  qed
qed


















lemma toLowerCase_whitespace: "list_all whitespace q \<Longrightarrow> toLowerCase q = q"
  unfolding toLowerCase_def
  by (intro map_idI) (auto simp: list_all_iff whitespace_def toLowerCase_unit_def)

lemma lower_upper_unit:
  "c < 0x80 \<Longrightarrow> map toLowerCase_unit (toUpperCase_unit c) = [toLowerCase_unit c]"
  unfolding toLowerCase_unit_def toUpperCase_unit_def
  by (auto split: if_splits) unat_arith+

lemma lower_upper: "\<forall>c \<in> set q. c < 0x80 \<Longrightarrow> toLowerCase (toUpperCase q) = toLowerCase q"
  by (induction q) (simp_all add: toLowerCase_def toUpperCase_def lower_upper_unit)

lemma toUpperCase_Nil: "toUpperCase q = [] \<longleftrightarrow> q = []"
  by (cases q) (auto simp: toUpperCase_def toUpperCase_unit_def)


section \<open>The search filter: which entities are kept\<close>




text \<open>
  Claim C6. On the empty query the filter returns the list itself, the same entities
  in the same order. The test is on the string as typed: a query that consists of
  white space only is not empty and is matched, as it stands, against every entity.
\<close>

theorem empty_query_returns_list:
  "filteredPokemon L [] = L \<and>
   (q \<noteq> [] \<and> list_all whitespace q \<longrightarrow> filteredPokemon L q = filter (matches q) L)"
  by (simp add: filteredPokemon_def toLowerCase_whitespace)

theorem empty_query_returns_list_witness:
  "filteredPokemon sample_catalogue [] = sample_catalogue \<and>
   js ''  '' \<noteq> [] \<and> list_all whitespace (js ''  '') \<and>
   filteredPokemon sample_catalogue (js ''  '') = filter (matches (js ''  '')) sample_catalogue \<and>
   filteredPokemon sample_catalogue (js ''  '') = []"
proof -
  have h: "js ''  '' \<noteq> [] \<and> list_all whitespace (js ''  '')"
    by code_simp
  have e: "filteredPokemon sample_catalogue (js ''  '') = []"
    by code_simp
  from empty_query_returns_list [of sample_catalogue "js ''  ''"] h e show ?thesis
    by blast
qed

text \<open>
  Claim C7. For every non-empty query, the filtered list is a subsequence of the
  entity list: entities are dropped, none is moved, repeated or added.
\<close>

theorem filter_is_subsequence:
  assumes "q \<noteq> []"
  shows "subseq (filteredPokemon L q) L"
  by (simp add: filteredPokemon_def Let_def)

theorem filter_is_subsequence_witness:
  "js ''grass'' \<noteq> [] \<and>
   subseq (filteredPokemon sample_catalogue (js ''grass'')) sample_catalogue \<and>
   filteredPokemon sample_catalogue (js ''grass'') = [bulbasaur, ivysaur]"
proof -
  have h: "js ''grass'' \<noteq> []"
    by (simp add: js_def)
  have e: "filteredPokemon sample_catalogue (js ''grass'') = [bulbasaur, ivysaur]"
    by code_simp
  from h filter_is_subsequence [OF h, of sample_catalogue] e show ?thesis
    by (intro conjI)
qed

text \<open>
  Claim C8 as stated, for every query, fails. The upper case of the one-letter query
  U+00DF is \<open>SS\<close>, whose lower case \<open>ss\<close> occurs in the category \<open>grass\<close>; the query
  itself lower-cases to itself and occurs nowhere.
\<close>

theorem sharp_s_query_counterexample:
  "filteredPokemon sample_catalogue (toUpperCase [0xDF]) \<noteq> filteredPokemon sample_catalogue [0xDF] \<and>
   toUpperCase [0xDF] = js ''SS'' \<and>
   filteredPokemon sample_catalogue (js ''SS'') = [bulbasaur, ivysaur] \<and>
   filteredPokemon sample_catalogue [0xDF] = []"
  by code_simp

text \<open>
  Claim C8, amended. For every entity list and every query made of Basic Latin code
  units (below \<open>0x80\<close>), the filter gives the same result on the query and on its upper
  case.
\<close>

theorem ascii_query_case_insensitive:
  assumes "\<forall>c \<in> set q. c < 0x80"
  shows "filteredPokemon L (toUpperCase q) = filteredPokemon L q"
  using assms by (simp add: filteredPokemon_def lower_upper toUpperCase_Nil)

theorem ascii_query_case_insensitive_witness:
  "list_all (\<lambda>c. c < 0x80) (js ''PiKa'') \<and>
   filteredPokemon sample_catalogue (toUpperCase (js ''PiKa'')) =
     filteredPokemon sample_catalogue (js ''PiKa'') \<and>
   toUpperCase (js ''PiKa'') = js ''PIKA'' \<and>
   filteredPokemon sample_catalogue (js ''PiKa'') = [pikachu]"
proof -
  have h: "\<forall>c \<in> set (js ''PiKa''). c < 0x80"
    by (simp add: js_def)
  have e: "toUpperCase (js ''PiKa'') = js ''PIKA''"
    "filteredPokemon sample_catalogue (js ''PiKa'') = [pikachu]"
    by code_simp+
  have a: "list_all (\<lambda>c. c < 0x80) (js ''PiKa'')"
    by (simp add: js_def)
  from a ascii_query_case_insensitive [OF h, of sample_catalogue] e show ?thesis
    by (intro conjI)
qed

section \<open>The catalogue loader: fork and join\<close>

lemma those_map_Some: "those (map Some vs) = Some vs"
  by (induction vs) auto

lemma settle_fulfils:
  assumes "length vs = length ps" and "length slots = length ps"
    and "\<And>i. i < length ps \<Longrightarrow> ps ! i = Inr (vs ! i)"
    and "\<And>i. i < length ps \<Longrightarrow> slots ! i = Some (vs ! i) \<or> (slots ! i = None \<and> i \<in> set order)"
  shows "Promise_all_settle ps slots order = Some (Inr vs)"
  using assms
proof (induction order arbitrary: slots)
  case Nil
  then have "slots = map Some vs"
    by (auto simp: list_eq_iff_nth_eq)
  then show ?case
    by (simp add: those_map_Some)
next
  case (Cons j order)
  show ?case
  proof (cases "j < length ps")
    case True
    have "Promise_all_settle ps (slots[j := Some (vs ! j)]) order = Some (Inr vs)"
    proof (rule Cons.IH)
      fix i assume i: "i < length ps"
      with Cons.prems(4) [of i]
      show "slots[j := Some (vs ! j)] ! i = Some (vs ! i) \<or>
            (slots[j := Some (vs ! j)] ! i = None \<and> i \<in> set order)"
        using Cons.prems(2) by (cases "i = j") auto
    qed (use Cons.prems in auto)
    with True Cons.prems(3) [of j] show ?thesis
      by simp
  next
    case False
    have "Promise_all_settle ps slots order = Some (Inr vs)"
    proof (rule Cons.IH)
      fix i assume i: "i < length ps"
      with Cons.prems(4) [of i] False
      show "slots ! i = Some (vs ! i) \<or> (slots ! i = None \<and> i \<in> set order)"
        by auto
    qed (use Cons.prems in auto)
    with False show ?thesis
      by simp
  qed
qed

lemma completion_order_set: "completion_order n order \<Longrightarrow> set order = {0..<n}"
  unfolding completion_order_def by (metis set_sort set_upt)

lemma Promise_all_fulfils:
  assumes "completion_order (length vs) order"
  shows "Promise_all order (map Inr vs) = Some (Inr vs)"
  unfolding Promise_all_def
  using completion_order_set [OF assms]
  by (intro settle_fulfils) auto

lemma settle_rejects:
  assumes "i \<in> set order" and "i < length ps" and "ps ! i = Inl e"
  shows "\<exists>e'. Promise_all_settle ps slots order = Some (Inl e') \<and> Inl e' \<in> set ps"
  using assms
proof (induction order arbitrary: slots)
  case Nil
  then show ?case by simp
next
  case (Cons j order)
  then show ?case
    by (cases "ps ! j") (auto split: sum.splits dest: nth_mem)
qed

lemma Promise_all_rejects:
  assumes "completion_order (length ps) order" and "i < length ps" and "ps ! i = Inl e"
  shows "\<exists>e'. Promise_all order ps = Some (Inl e') \<and> Inl e' \<in> set ps"
  unfolding Promise_all_def
  using completion_order_set [OF assms(1)] assms(2,3)
  by (intro settle_rejects [of i]) auto

text \<open>The page reads none of the console: a caught failure shows as a finished load.\<close>

lemma render_catch: "render (catch e s) = render (s\<lparr>loading := False\<rparr>)"
  by (simp add: render_def catch_def count_indicator_def spinner_shown_def grid_def
      empty_message_shown_def overlay_shown_def)

text \<open>
  Claim C2. If the list request fails, or some detail request fails (every detail
  promise settling at some time), the load ends in the \<^verbatim>\<open>catch\<close> branch: the loading
  flag is cleared, the entity list is still empty, exactly one line is appended to
  the console, carrying the reason of a request that failed, and the page is the one
  of a session whose load has finished: the query and the selection are untouched
  and no error reaches what is rendered.
\<close>

theorem load_failure_is_atomic:
  assumes "list_response net = Inl e \<or>
           (\<exists>results. list_response net = Inr results \<and>
              (\<exists>url \<in> set results. isl (detail_response net url)) \<and>
              completion_order (length results) (settle_order net))"
    and "pokemon s = []"
  shows "\<exists>s' e'. fetchPokemon net s = Some s' \<and>
           loading s' = False \<and>
           pokemon s' = [] \<and>
           console s' = console s @ [(js ''Error fetching Pokemon:'', e')] \<and>
           (list_response net = Inl e' \<or>
            (\<exists>results url. list_response net = Inr results \<and> url \<in> set results \<and>
               detail_response net url = Inl e')) \<and>
           search s' = search s \<and>
           selectedPokemon s' = selectedPokemon s \<and>
           render s' = render (s\<lparr>loading := False\<rparr>)"
proof -
  have caught: "\<exists>s'. Some (catch e' s) = Some s' \<and>
           loading s' = False \<and>
           pokemon s' = [] \<and>
           console s' = console s @ [(js ''Error fetching Pokemon:'', e')] \<and>
           search s' = search s \<and>
           selectedPokemon s' = selectedPokemon s \<and>
           render s' = render (s\<lparr>loading := False\<rparr>)" for e'
    using assms(2) by (simp add: render_catch) (simp add: catch_def)
  from assms(1) show ?thesis
  proof
    assume l: "list_response net = Inl e"
    then have "fetchPokemon net s = Some (catch e s)"
      by (simp add: fetchPokemon_def)
    with caught [of e] l show ?thesis
      by auto
  next
    assume "\<exists>results. list_response net = Inr results \<and>
              (\<exists>url \<in> set results. isl (detail_response net url)) \<and>
              completion_order (length results) (settle_order net)"
    then obtain results url where r: "list_response net = Inr results"
      and u: "url \<in> set results" "isl (detail_response net url)"
      and c: "completion_order (length results) (settle_order net)"
      by blast
    let ?ps = "map (\<lambda>url. map_sum (\<lambda>e. e) normalise (detail_response net url)) results"
    from u obtain i where i: "i < length results" "results ! i = url"
      by (auto simp: in_set_conv_nth)
    from u(2) obtain e0 where "detail_response net url = Inl e0"
      by (cases "detail_response net url") auto
    with i have "?ps ! i = Inl e0"
      by simp
    with c i(1) obtain e' where p: "Promise_all (settle_order net) ?ps = Some (Inl e')"
      and m: "Inl e' \<in> set ?ps"
      using Promise_all_rejects [of ?ps "settle_order net" i e0] by auto
    from m obtain url' where "url' \<in> set results" "detail_response net url' = Inl e'"
      by (auto simp: map_sum_def split: sum.splits)
    moreover from r p have "fetchPokemon net s = Some (catch e' s)"
      by (simp add: fetchPokemon_def)
    ultimately show ?thesis
      using caught [of e'] r by auto
  qed
qed

theorem load_failure_is_atomic_witness:
  "(list_response failing_network = Inl (NetworkError []) \<or>
      (\<exists>results. list_response failing_network = Inr results \<and>
         (\<exists>url \<in> set results. isl (detail_response failing_network url)) \<and>
         completion_order (length results) (settle_order failing_network))) \<and>
   pokemon initial_state = [] \<and>
   (\<exists>s' e'. fetchPokemon failing_network initial_state = Some s' \<and>
           loading s' = False \<and>
           pokemon s' = [] \<and>
           console s' = console initial_state @ [(js ''Error fetching Pokemon:'', e')] \<and>
           (list_response failing_network = Inl e' \<or>
            (\<exists>results url. list_response failing_network = Inr results \<and> url \<in> set results \<and>
               detail_response failing_network url = Inl e')) \<and>
           search s' = search initial_state \<and>
           selectedPokemon s' = selectedPokemon initial_state \<and>
           render s' = render (initial_state\<lparr>loading := False\<rparr>)) \<and>
   fetchPokemon failing_network initial_state = Some after_failed_load"
proof -
  have "isl (detail_response failing_network (js ''pokemon/2/''))"
    by (simp add: failing_network_def)
  moreover have "js ''pokemon/2/'' \<in> set sample_references"
    by (simp add: sample_references_def)
  moreover have "completion_order (length sample_references) (settle_order failing_network)"
    by code_simp
  moreover have "list_response failing_network = Inr sample_references"
    by (simp add: failing_network_def)
  ultimately have h: "list_response failing_network = Inl (NetworkError []) \<or>
      (\<exists>results. list_response failing_network = Inr results \<and>
         (\<exists>url \<in> set results. isl (detail_response failing_network url)) \<and>
         completion_order (length results) (settle_order failing_network))"
    by blast
  have p: "pokemon initial_state = []"
    by (simp add: initial_state_def)
  have e: "fetchPokemon failing_network initial_state = Some after_failed_load"
    by code_simp
  from h p load_failure_is_atomic [OF h p] e show ?thesis
    by (intro conjI)
qed

text \<open>
  Claim C3. When the list request yields the references \<open>results\<close>, the detail request
  for the reference at position \<open>i\<close> yields the document \<open>details ! i\<close>, and the detail
  promises settle in any order whatever, the load stores the normalised documents in
  the order of the references: position \<open>i\<close> of the list holds
  \<open>normalise (details ! i)\<close>.
\<close>

theorem canonical_list_in_reference_order:
  assumes "list_response net = Inr results"
    and "map (detail_response net) results = map Inr details"
    and "completion_order (length results) (settle_order net)"
  shows "fetchPokemon net s = Some (s\<lparr>pokemon := map normalise details, loading := False\<rparr>)"
proof -
  have "map (\<lambda>url. map_sum (\<lambda>e. e) normalise (detail_response net url)) results =
        map (map_sum (\<lambda>e. e) normalise) (map (detail_response net) results)"
    by simp
  also have "\<dots> = map Inr (map normalise details)"
    by (simp add: assms(2))
  finally have ps: "map (\<lambda>url. map_sum (\<lambda>e. e) normalise (detail_response net url)) results =
        map Inr (map normalise details)" .
  from assms(2) have "length results = length details"
    by (metis length_map)
  with assms(3) have "completion_order (length (map normalise details)) (settle_order net)"
    by simp
  then have "Promise_all (settle_order net) (map Inr (map normalise details)) =
        Some (Inr (map normalise details))"
    by (rule Promise_all_fulfils)
  with assms(1) ps show ?thesis
    by (simp add: fetchPokemon_def)
qed

theorem canonical_list_in_reference_order_witness:
  "list_response sample_network = Inr sample_references \<and>
   map (detail_response sample_network) sample_references =
     map Inr [bulbasaur_detail, ivysaur_detail, pikachu_detail] \<and>
   completion_order (length sample_references) (settle_order sample_network) \<and>
   settle_order sample_network = [1, 0, 2] \<and>
   fetchPokemon sample_network initial_state =
     Some (initial_state\<lparr>pokemon := map normalise [bulbasaur_detail, ivysaur_detail, pikachu_detail],
                          loading := False\<rparr>) \<and>
   map normalise [bulbasaur_detail, ivysaur_detail, pikachu_detail] = [bulbasaur, ivysaur, pikachu]"
proof -
  have h1: "list_response sample_network = Inr sample_references"
    by (simp add: sample_network_def)
  have h2: "map (detail_response sample_network) sample_references =
     map Inr [bulbasaur_detail, ivysaur_detail, pikachu_detail]"
    by code_simp
  have h3: "completion_order (length sample_references) (settle_order sample_network)"
    by code_simp
  have h4: "settle_order sample_network = [1, 0, 2]"
    by (simp add: sample_network_def)
  have h5: "map normalise [bulbasaur_detail, ivysaur_detail, pikachu_detail] = [bulbasaur, ivysaur, pikachu]"
    by code_simp
  from h1 h2 h3 h4 canonical_list_in_reference_order [OF h1 h2 h3, of initial_state] h5
  show ?thesis
    by (intro conjI)
qed

text \<open>
  Claim C9 as stated fails in one direction: a preferred reference that is present
  but is the empty string is falsy, so \<^verbatim>\<open>||\<close> takes the fallback although the preferred
  reference is not absent.
\<close>

theorem blank_preferred_reference_counterexample:
  "\<not> (other_official_artwork_front_default (detail_sprites blank_artwork_detail) \<noteq> None \<longrightarrow>
        sprite (normalise blank_artwork_detail) =
          other_official_artwork_front_default (detail_sprites blank_artwork_detail))"
  by (simp add: blank_artwork_detail_def normalise_def or_else_def js_def)

text \<open>
  Claim C9, amended. Normalisation stores the preferred reference (official artwork)
  whenever it is a non-empty string, and the lower-resolution reference exactly when
  the preferred one is absent or the empty string; in particular an absent preferred
  reference and a present lower-resolution one give the lower-resolution one.
\<close>

theorem sprite_selection:
  "(other_official_artwork_front_default (detail_sprites d) = None \<or>
    other_official_artwork_front_default (detail_sprites d) = Some [] \<longrightarrow>
      sprite (normalise d) = front_default (detail_sprites d)) \<and>
   (other_official_artwork_front_default (detail_sprites d) \<noteq> None \<and>
    other_official_artwork_front_default (detail_sprites d) \<noteq> Some [] \<longrightarrow>
      sprite (normalise d) = other_official_artwork_front_default (detail_sprites d)) \<and>
   (other_official_artwork_front_default (detail_sprites d) = None \<and>
    front_default (detail_sprites d) = Some r \<longrightarrow>
      sprite (normalise d) = Some r)"
  by (auto simp: normalise_def or_else_def split: option.splits)

theorem sprite_selection_witness:
  "other_official_artwork_front_default (detail_sprites pikachu_detail) = None \<and>
   front_default (detail_sprites pikachu_detail) = Some (js ''sprites/25.png'') \<and>
   sprite (normalise pikachu_detail) = Some (js ''sprites/25.png'') \<and>
   other_official_artwork_front_default (detail_sprites bulbasaur_detail) \<noteq> None \<and>
   other_official_artwork_front_default (detail_sprites bulbasaur_detail) \<noteq> Some [] \<and>
   sprite (normalise bulbasaur_detail) = other_official_artwork_front_default (detail_sprites bulbasaur_detail) \<and>
   other_official_artwork_front_default (detail_sprites blank_artwork_detail) = Some [] \<and>
   sprite (normalise blank_artwork_detail) = front_default (detail_sprites blank_artwork_detail)"
proof -
  have p: "other_official_artwork_front_default (detail_sprites pikachu_detail) = None"
    "front_default (detail_sprites pikachu_detail) = Some (js ''sprites/25.png'')"
    by (simp_all add: pikachu_detail_def)
  have b: "other_official_artwork_front_default (detail_sprites bulbasaur_detail) \<noteq> None"
    "other_official_artwork_front_default (detail_sprites bulbasaur_detail) \<noteq> Some []"
    by (simp_all add: bulbasaur_detail_def js_def)
  have d: "other_official_artwork_front_default (detail_sprites blank_artwork_detail) = Some []"
    by (simp add: blank_artwork_detail_def)
  from sprite_selection [of pikachu_detail "js ''sprites/25.png''"] p
  have 1: "sprite (normalise pikachu_detail) = Some (js ''sprites/25.png'')" by blast
  from sprite_selection [of bulbasaur_detail] b
  have 2: "sprite (normalise bulbasaur_detail) =
      other_official_artwork_front_default (detail_sprites bulbasaur_detail)" by blast
  from sprite_selection [of blank_artwork_detail] d
  have 3: "sprite (normalise blank_artwork_detail) = front_default (detail_sprites blank_artwork_detail)"
    by blast
  from p 1 b 2 d 3 show ?thesis by (intro conjI)
qed

section \<open>The selection\<close>

lemma handle_refines: "selection_of (handle s ev) = spec_step (selection_of s) ev"
  by (cases ev; cases "selectedPokemon s") (simp_all add: selection_of_def)

lemma selection_of_run: "selection_of (run s evs) = foldl spec_step (selection_of s) evs"
proof (induction evs arbitrary: s)
  case Nil
  show ?case by (simp add: run_def)
next
  case (Cons ev evs)
  from Cons [of "handle s ev"] show ?case
    by (simp add: run_def handle_refines)
qed

text \<open>
  Claim C4. The cell \<^verbatim>\<open>selectedPokemon\<close> is read as one of the states \<open>Closed\<close> and
  \<open>Open e\<close>, and as no other. The session starts \<open>Closed\<close>; each handler moves the
  state as the specified machine does; selecting \<open>e\<close> gives \<open>Open e\<close> from any state,
  also from \<open>Open e'\<close>, and a dismissal after it gives \<open>Closed\<close>, not the earlier
  selection; after every sequence of events at most one entity is selected.
\<close>

theorem selection_state_machine:
  "selection_of initial_state = Closed \<and>
   (selection_of s = Closed \<longleftrightarrow> selectedPokemon s = None) \<and>
   (selection_of s = Open e \<longleftrightarrow> selectedPokemon s = Some e) \<and>
   selection_of (handle s ev) = spec_step (selection_of s) ev \<and>
   selection_of (handle s (Select e)) = Open e \<and>
   selection_of (handle (handle s (Select e')) (Select e)) = Open e \<and>
   selection_of (handle (handle s (Select e)) Dismiss) = Closed \<and>
   selection_of (run initial_state evs) = foldl spec_step Closed evs \<and>
   card {p. selectedPokemon (run initial_state evs) = Some p} \<le> 1"
proof (intro conjI)
  show init: "selection_of initial_state = Closed"
    by (simp add: selection_of_def initial_state_def)
  show "selection_of s = Closed \<longleftrightarrow> selectedPokemon s = None"
    by (simp add: selection_of_def split: option.splits)
  show "selection_of s = Open e \<longleftrightarrow> selectedPokemon s = Some e"
    by (simp add: selection_of_def split: option.splits)
  show "selection_of (handle s ev) = spec_step (selection_of s) ev"
    by (rule handle_refines)
  show "selection_of (handle s (Select e)) = Open e"
    by (simp add: selection_of_def)
  show "selection_of (handle (handle s (Select e')) (Select e)) = Open e"
    by (simp add: selection_of_def)
  show "selection_of (handle (handle s (Select e)) Dismiss) = Closed"
    by (simp add: selection_of_def)
  show "selection_of (run initial_state evs) = foldl spec_step Closed evs"
    using selection_of_run [of initial_state evs] init by simp
  show "card {p. selectedPokemon (run initial_state evs) = Some p} \<le> 1"
    by (cases "selectedPokemon (run initial_state evs)") simp_all
qed

theorem selection_state_machine_witness:
  "(selection_of initial_state = Closed \<and>
    (selection_of initial_state = Closed \<longleftrightarrow> selectedPokemon initial_state = None) \<and>
    (selection_of initial_state = Open pikachu \<longleftrightarrow> selectedPokemon initial_state = Some pikachu) \<and>
    selection_of (handle initial_state Dismiss) = spec_step (selection_of initial_state) Dismiss \<and>
    selection_of (handle initial_state (Select pikachu)) = Open pikachu \<and>
    selection_of (handle (handle initial_state (Select bulbasaur)) (Select pikachu)) = Open pikachu \<and>
    selection_of (handle (handle initial_state (Select pikachu)) Dismiss) = Closed \<and>
    selection_of (run initial_state [Select bulbasaur, Select pikachu, Dismiss, Select ivysaur]) =
      foldl spec_step Closed [Select bulbasaur, Select pikachu, Dismiss, Select ivysaur] \<and>
    card {p. selectedPokemon (run initial_state [Select bulbasaur, Select pikachu, Dismiss, Select ivysaur]) = Some p} \<le> 1) \<and>
   foldl spec_step Closed [Select bulbasaur, Select pikachu, Dismiss, Select ivysaur] = Open ivysaur"
proof -
  have "foldl spec_step Closed [Select bulbasaur, Select pikachu, Dismiss, Select ivysaur] = Open ivysaur"
    by simp
  with selection_state_machine [of initial_state pikachu Dismiss bulbasaur
      "[Select bulbasaur, Select pikachu, Dismiss, Select ivysaur]"]
  show ?thesis
    by (rule conjI)
qed

section \<open>What the page shows\<close>

text \<open>
  Claim C5. The empty-state message is meant for a query without a match: its text
  quotes the query, and the count line next to it is guarded by \<^verbatim>\<open>search &&\<close>. The
  block at the end of the page lacks that guard. After the load over
  \<open>failing_network\<close> has failed, with nothing typed, the entity list is empty, so the
  filtered list is empty and the message is shown, quoting the empty query, while
  the count line stays hidden.
\<close>

theorem empty_message_without_query:
  "fetchPokemon failing_network initial_state = Some after_failed_load \<and>
   search after_failed_load = [] \<and>
   count_indicator after_failed_load = None \<and>
   empty_message_shown after_failed_load \<and>
   view_empty_message (render after_failed_load) = Some [] \<and>
   \<not> (empty_message_shown after_failed_load \<longleftrightarrow>
        (\<not> loading after_failed_load \<and> search after_failed_load \<noteq> [] \<and>
         length (filteredPokemon (pokemon after_failed_load) (search after_failed_load)) = 0))"
proof -
  have "fetchPokemon failing_network initial_state = Some after_failed_load"
    by code_simp
  then show ?thesis
    by (simp add: empty_message_shown_def count_indicator_def render_def after_failed_load_def
        filteredPokemon_def)
qed



end
